theory Spec2Isabelle
  imports Main
begin

section \<open>Values, the JSON built-in and exceptions\<close>

text \<open>
  The hooks are generic in the stored type \<open>T\<close> and cast unchecked (\<open>as T\<close>,
  \<open>as unknown as T\<close>), so the bound value is any runtime value that is data. Numbers
  are the integers among the host's numbers; \<open>JBoxed\<close> is the wrapper object of a
  primitive. Functions are not among these values: the only functions the code meets are
  the members an object inherits (see below).
\<close>

datatype jsval =
    JUndefined
  | JNull
  | JBool bool
  | JNum int
  | JStr string
  | JSymbol string
  | JArr "jsval list"
  | JObj "(string \<times> jsval) list"
  | JBoxed jsval

text \<open>What a call of the host can throw: \<open>SyntaxError\<close>, or any other error.\<close>

datatype js_error = SyntaxError | TypeError

text \<open>
  \<open>JSON.parse\<close> and \<open>JSON.stringify\<close> belong to the host, not to the repository:
  every function below takes them as a parameter. \<open>JSON.parse\<close> accepts any value
  (the extension hook passes it \<open>any\<close>) and either returns or throws.
  \<open>JSON.stringify\<close> returns a text, or \<open>undefined\<close> (here \<open>None\<close>) for a value
  that has no JSON text, or throws.
\<close>

record json_host =
  JSON_parse :: "jsval \<Rightarrow> js_error + jsval"
  JSON_stringify :: "jsval \<Rightarrow> js_error + string option"

text \<open>\<open>try { ... } catch (error) { ... }\<close> and sequencing of calls that may throw.\<close>

definition bind_js :: "js_error + 'a \<Rightarrow> ('a \<Rightarrow> js_error + 'b) \<Rightarrow> js_error + 'b" where
  "bind_js m f = (case m of Inl e \<Rightarrow> Inl e | Inr x \<Rightarrow> f x)"

definition try_catch :: "js_error + 'a \<Rightarrow> (js_error \<Rightarrow> js_error + 'a) \<Rightarrow> js_error + 'a" where
  "try_catch body handler = (case body of Inl e \<Rightarrow> handler e | Inr x \<Rightarrow> Inr x)"

text \<open>\<open>React.SetStateAction<T>\<close>: a value, or a function of the previous value.\<close>

datatype SetStateAction = Literal jsval | Updater "jsval \<Rightarrow> jsval"

text \<open>An optional parameter with a default (\<open>persist: boolean = d\<close>).\<close>

definition default_param :: "'a \<Rightarrow> 'a option \<Rightarrow> 'a" where
  "default_param d arg = (case arg of None \<Rightarrow> d | Some a \<Rightarrow> a)"

section \<open>Members of plain objects\<close>

text \<open>
  \<open>obj[key]\<close> on a plain object finds the object's own member or, failing that, the
  member of that name inherited from \<open>Object.prototype\<close>: one of its functions, or for
  \<open>__proto__\<close> the prototype object itself (an object with nothing to enumerate). Only
  a name found nowhere gives \<open>undefined\<close>.
\<close>

definition Object_prototype_names :: "string list" where
  "Object_prototype_names =
     [''constructor'', ''__defineGetter__'', ''__defineSetter__'', ''hasOwnProperty'',
      ''__lookupGetter__'', ''__lookupSetter__'', ''isPrototypeOf'', ''propertyIsEnumerable'',
      ''toString'', ''valueOf'', ''toLocaleString'', ''__proto__'']"

datatype looked_up = Data jsval | Builtin string | Prototype

definition Object_prototype :: "string \<Rightarrow> looked_up" where
  "Object_prototype key =
     (if key = ''__proto__'' then Prototype
      else if key \<in> set Object_prototype_names then Builtin key
      else Data JUndefined)"

definition lookup :: "(string \<rightharpoonup> jsval) \<Rightarrow> string \<Rightarrow> looked_up" where
  "lookup obj key = (case obj key of Some v \<Rightarrow> Data v | None \<Rightarrow> Object_prototype key)"

text \<open>
  \<open>JSON.parse\<close> of what a lookup found. The built-in converts its argument to a
  string first. The string of a built-in function is its source text and the string of
  the prototype object is \<open>[object Object]\<close>; neither is JSON, so the call throws
  \<open>SyntaxError\<close> on them whatever the host's parser makes of other texts.
\<close>

definition parse_found :: "json_host \<Rightarrow> looked_up \<Rightarrow> js_error + jsval" where
  "parse_found h found =
     (case found of
        Data v \<Rightarrow> JSON_parse h v
      | Builtin key \<Rightarrow> Inl SyntaxError
      | Prototype \<Rightarrow> Inl SyntaxError)"

text \<open>
  The functions of \<open>Object.prototype\<close> called with one argument and no receiver, which
  is how React calls a function it is given as the new state. \<open>toString\<close> answers for
  the receiver \<open>undefined\<close>; \<open>Object\<close> converts its argument to an object;
  \<open>isPrototypeOf\<close> answers \<open>false\<close> for a primitive; every other one converts the
  missing receiver to an object first, which throws \<open>TypeError\<close>.
\<close>

definition is_object :: "jsval \<Rightarrow> bool" where
  "is_object v = (case v of JArr xs \<Rightarrow> True | JObj kvs \<Rightarrow> True | JBoxed p \<Rightarrow> True | _ \<Rightarrow> False)"

definition call_builtin :: "string \<Rightarrow> jsval \<Rightarrow> js_error + jsval" where
  "call_builtin key arg =
     (if key = ''toString'' then Inr (JStr ''[object Undefined]'')
      else if key = ''constructor''
           then (if arg = JUndefined \<or> arg = JNull then Inr (JObj [])
                 else if is_object arg then Inr arg
                 else Inr (JBoxed arg))
      else if key = ''isPrototypeOf''
           then (if is_object arg then Inl TypeError else Inr (JBool False))
      else Inl TypeError)"

text \<open>
  The new state after \<open>setValue(action)\<close> of React's \<open>useState\<close>: a function is
  called with the previous state, anything else is the state. An exception of the
  function is the exception of the render that applies the update.
\<close>

definition next_state :: "looked_up \<Rightarrow> jsval \<Rightarrow> js_error + jsval" where
  "next_state action prev =
     (case action of
        Data v \<Rightarrow> Inr v
      | Builtin key \<Rightarrow> call_builtin key prev
      | Prototype \<Rightarrow> Inr (JObj []))"

section \<open>useSimpleStore: the binding to localStorage and sessionStorage\<close>

text \<open>
  The two Web Storage areas of the page map keys to texts; \<open>getItem\<close> returns
  \<open>null\<close> (here \<open>None\<close>) for a missing key. The quota of \<open>setItem\<close> is not
  modelled: a write always succeeds.
\<close>

record web_storage =
  localStorage :: "string \<rightharpoonup> string"
  sessionStorage :: "string \<rightharpoonup> string"

datatype storage_ref = LocalStorage | SessionStorage

definition getItem :: "web_storage \<Rightarrow> storage_ref \<Rightarrow> string \<Rightarrow> string option" where
  "getItem w storage key =
     (case storage of LocalStorage \<Rightarrow> localStorage w key
                    | SessionStorage \<Rightarrow> sessionStorage w key)"

definition setItem :: "web_storage \<Rightarrow> storage_ref \<Rightarrow> string \<Rightarrow> string \<Rightarrow> web_storage" where
  "setItem w storage key item =
     (case storage of
        LocalStorage \<Rightarrow> w\<lparr>localStorage := (localStorage w)(key \<mapsto> item)\<rparr>
      | SessionStorage \<Rightarrow> w\<lparr>sessionStorage := (sessionStorage w)(key \<mapsto> item)\<rparr>)"

text \<open>\<open>const storage = persist ? localStorage : sessionStorage\<close>, \<open>persist\<close> defaulting to true.\<close>

definition simple_storage :: "bool option \<Rightarrow> storage_ref" where
  "simple_storage persist_arg =
     (if default_param True persist_arg then LocalStorage else SessionStorage)"

text \<open>
  The initializer of \<open>useState\<close>:
  \<open>storedValue ? JSON.parse(storedValue) : defaultValue\<close>. The test is truthiness:
  \<open>null\<close> and the empty text both select the default.
\<close>

definition useSimpleStore_initial ::
  "json_host \<Rightarrow> web_storage \<Rightarrow> string \<Rightarrow> jsval \<Rightarrow> bool option \<Rightarrow> js_error + jsval" where
  "useSimpleStore_initial h w key defaultValue persist_arg =
     (case getItem w (simple_storage persist_arg) key of
        None \<Rightarrow> Inr defaultValue
      | Some storedValue \<Rightarrow>
          if storedValue \<noteq> [] then JSON_parse h (JStr storedValue) else Inr defaultValue)"

text \<open>
  A mounted component: the React state cell \<open>value\<close> and the storage it shares with
  the rest of the page.
\<close>

record simple_store =
  value_st :: jsval
  web :: web_storage

text \<open>The first render runs the initializer; an exception there leaves nothing mounted.\<close>

definition useSimpleStore_mount ::
  "json_host \<Rightarrow> string \<Rightarrow> jsval \<Rightarrow> bool option \<Rightarrow> web_storage \<Rightarrow> js_error + simple_store" where
  "useSimpleStore_mount h key defaultValue persist_arg w =
     bind_js (useSimpleStore_initial h w key defaultValue persist_arg)
       (\<lambda>v. Inr \<lparr>value_st = v, web = w\<rparr>)"

text \<open>
  \<open>handleStorageChange\<close> takes no argument: it reads its own key again and, when the
  entry is not \<open>null\<close>, parses it unguarded. \<open>Inl\<close> is the exception leaving the
  listener, the state untouched.
\<close>

definition handleStorageChange ::
  "json_host \<Rightarrow> string \<Rightarrow> bool option \<Rightarrow> simple_store \<Rightarrow> js_error + simple_store" where
  "handleStorageChange h key persist_arg st =
     (case getItem (web st) (simple_storage persist_arg) key of
        None \<Rightarrow> Inr st
      | Some storedValue \<Rightarrow>
          bind_js (JSON_parse h (JStr storedValue)) (\<lambda>v. Inr (st\<lparr>value_st := v\<rparr>)))"

text \<open>
  The page's \<open>storage\<close> event, delivered to the registered listener. The listener
  ignores what the event carries.
\<close>

record StorageEvent =
  event_key :: "string option"
  event_newValue :: "string option"
  event_storageArea :: storage_ref

definition dispatch_storage_event ::
  "json_host \<Rightarrow> string \<Rightarrow> bool option \<Rightarrow> StorageEvent \<Rightarrow> simple_store \<Rightarrow> js_error + simple_store" where
  "dispatch_storage_event h key persist_arg ev st = handleStorageChange h key persist_arg st"

text \<open>
  \<open>setStoredValue\<close> is a closure of the render that created it: \<open>value\<close> is that
  render's value, passed here as \<open>captured\<close>. The call gives the state it leaves and
  the exception it throws, if any: \<open>setValue\<close> has run when \<open>JSON.stringify\<close>
  throws. \<open>setItem\<close> converts what it is given to a string, \<open>undefined\<close> to the text
  \<open>undefined\<close>.
\<close>

definition setStoredValue ::
  "json_host \<Rightarrow> string \<Rightarrow> bool option \<Rightarrow> jsval \<Rightarrow> SetStateAction \<Rightarrow> simple_store
     \<Rightarrow> simple_store \<times> js_error option" where
  "setStoredValue h key persist_arg captured valueAction st =
     (let valueToStore = (case valueAction of Updater f \<Rightarrow> f captured | Literal v \<Rightarrow> v);
          st1 = st\<lparr>value_st := valueToStore\<rparr>
      in case JSON_stringify h valueToStore of
           Inl e \<Rightarrow> (st1, Some e)
         | Inr json \<Rightarrow>
             (st1\<lparr>web := setItem (web st1) (simple_storage persist_arg) key
                             (case json of Some item \<Rightarrow> item | None \<Rightarrow> ''undefined'')\<rparr>,
              None))"

text \<open>A render returns \<open>[value, setStoredValue]\<close>.\<close>

definition useSimpleStore ::
  "json_host \<Rightarrow> string \<Rightarrow> bool option \<Rightarrow> simple_store
     \<Rightarrow> jsval \<times> (SetStateAction \<Rightarrow> simple_store \<Rightarrow> simple_store \<times> js_error option)" where
  "useSimpleStore h key persist_arg st =
     (value_st st, setStoredValue h key persist_arg (value_st st))"

text \<open>
  One call of the setter that the latest render returned, that is, with a render between
  this call and the one before.
\<close>

definition call_setter ::
  "json_host \<Rightarrow> string \<Rightarrow> bool option \<Rightarrow> SetStateAction \<Rightarrow> simple_store \<Rightarrow> simple_store" where
  "call_setter h key persist_arg valueAction st =
     fst (snd (useSimpleStore h key persist_arg st) valueAction st)"

section \<open>useChromeStore and getFromChromeStore: the binding to chrome.storage\<close>

text \<open>
  The two areas of \<open>chrome.storage\<close> map keys to values of any kind. \<open>get\<close> calls
  back with a plain object holding the requested keys that are present. \<open>set\<close> stores
  the members of the object it is given, leaving out a member that is \<open>undefined\<close>;
  it is fire-and-forget and modelled as done. The callbacks are modelled at the moment
  the host runs them.
\<close>

record chrome_storage =
  local_area :: "string \<rightharpoonup> jsval"
  session_area :: "string \<rightharpoonup> jsval"

datatype area_ref = ChromeLocal | ChromeSession

definition area_items :: "chrome_storage \<Rightarrow> area_ref \<Rightarrow> (string \<rightharpoonup> jsval)" where
  "area_items c storage =
     (case storage of ChromeLocal \<Rightarrow> local_area c | ChromeSession \<Rightarrow> session_area c)"

definition storage_get :: "chrome_storage \<Rightarrow> area_ref \<Rightarrow> string list \<Rightarrow> (string \<rightharpoonup> jsval)" where
  "storage_get c storage keys = area_items c storage |` set keys"

definition storable :: "(string \<times> jsval) list \<Rightarrow> (string \<times> jsval) list" where
  "storable items = filter (\<lambda>(k, v). v \<noteq> JUndefined) items"

definition storage_set :: "chrome_storage \<Rightarrow> area_ref \<Rightarrow> (string \<times> jsval) list \<Rightarrow> chrome_storage" where
  "storage_set c storage items =
     (case storage of
        ChromeLocal \<Rightarrow> c\<lparr>local_area := local_area c ++ map_of (storable items)\<rparr>
      | ChromeSession \<Rightarrow> c\<lparr>session_area := session_area c ++ map_of (storable items)\<rparr>)"

text \<open>\<open>const storage = persist ? chrome.storage.local : chrome.storage.session\<close>, \<open>persist\<close> defaulting to false.\<close>

definition chrome_area :: "bool option \<Rightarrow> area_ref" where
  "chrome_area persist_arg =
     (if default_param False persist_arg then ChromeLocal else ChromeSession)"

text \<open>What the code prints on the console: the level and the message.\<close>

datatype console_level = Console_log | Console_debug | Console_error

type_synonym console = "(console_level \<times> string) list"

text \<open>A promise that has settled, or has not.\<close>

datatype 'a promise = Resolved 'a | Rejected js_error | Pending

text \<open>
  \<open>getFromChromeStore\<close>: the promise as it stands once the callback of \<open>get\<close> has
  run, with what the callback printed. An exception leaving the callback would settle
  nothing.
\<close>

definition getFromChromeStore ::
  "json_host \<Rightarrow> chrome_storage \<Rightarrow> string \<Rightarrow> jsval \<Rightarrow> bool option \<Rightarrow> jsval promise \<times> console" where
  "getFromChromeStore h c key defaultValue persist_arg =
     (let storage = chrome_area persist_arg;
          result = storage_get c storage [key]
      in case (if lookup result key \<noteq> Data JUndefined
               then try_catch
                      (bind_js (parse_found h (lookup result key))
                         (\<lambda>v. Inr (Resolved v, [])))
                      (\<lambda>error. Inr (Resolved defaultValue,
                         [(Console_error, ''[Warning] Error parsing value from storage:'')]))
               else Inr (Resolved defaultValue, []))
         of Inl e \<Rightarrow> (Pending, [])
          | Inr settled \<Rightarrow> settled)"

text \<open>
  A mounted component: the state cells \<open>value\<close> and \<open>hasLoaded\<close>, the console, and
  the storage shared with the other contexts of the extension.
\<close>

record chrome_store =
  value_c :: jsval
  hasLoaded :: bool
  console_out :: console
  chrome :: chrome_storage

definition console_print :: "console_level \<Rightarrow> string \<Rightarrow> chrome_store \<Rightarrow> chrome_store" where
  "console_print level message st = st\<lparr>console_out := console_out st @ [(level, message)]\<rparr>"

text \<open>\<open>setValue(action)\<close> on the component's state.\<close>

definition setValue :: "looked_up \<Rightarrow> chrome_store \<Rightarrow> js_error + chrome_store" where
  "setValue action st = bind_js (next_state action (value_c st)) (\<lambda>v. Inr (st\<lparr>value_c := v\<rparr>))"

text \<open>The first render: \<open>useState(defaultValue)\<close> and \<open>useState(false)\<close>.\<close>

definition useChromeStore_mount :: "jsval \<Rightarrow> chrome_storage \<Rightarrow> chrome_store" where
  "useChromeStore_mount defaultValue c =
     \<lparr>value_c = defaultValue, hasLoaded = False, console_out = [], chrome = c\<rparr>"

text \<open>
  The callback of the first effect's \<open>storage.get([key], ...)\<close>. \<open>Inl\<close> is an
  exception leaving the callback or the render that applies its updates.
\<close>

definition initial_read ::
  "json_host \<Rightarrow> string \<Rightarrow> bool option \<Rightarrow> chrome_store \<Rightarrow> js_error + chrome_store" where
  "initial_read h key persist_arg st =
     (let result = storage_get (chrome st) (chrome_area persist_arg) [key]
      in bind_js
           (if lookup result key \<noteq> Data JUndefined
            then try_catch
                   (bind_js (parse_found h (lookup result key))
                      (\<lambda>v. setValue (Data v) st))
                   (\<lambda>error. setValue (lookup result key)
                      (console_print Console_debug
                         ''[Warning] Error parsing value from storage:'' st))
            else Inr st)
           (\<lambda>st'. Inr (st'\<lparr>hasLoaded := True\<rparr>)))"

text \<open>
  A change of \<open>chrome.storage.onChanged\<close>: \<open>newValue\<close> and \<open>oldValue\<close> are optional
  members, \<open>undefined\<close> when missing (a removed key has no \<open>newValue\<close>).
  \<open>changes[key]\<close> is a lookup in a plain object: for a key that the change set does not
  hold and \<open>Object.prototype\<close> does, it finds the inherited member, which is truthy and
  has no \<open>newValue\<close>.
\<close>

record StorageChange =
  oldValue :: jsval
  newValue :: jsval

definition changes_member :: "(string \<rightharpoonup> StorageChange) \<Rightarrow> string \<Rightarrow> StorageChange option" where
  "changes_member changes key =
     (case changes key of
        Some change \<Rightarrow> Some change
      | None \<Rightarrow>
          if key \<in> set Object_prototype_names
          then Some \<lparr>oldValue = JUndefined, newValue = JUndefined\<rparr>
          else None)"

definition handleStorageChange_chrome ::
  "json_host \<Rightarrow> string \<Rightarrow> bool option \<Rightarrow> (string \<rightharpoonup> StorageChange) \<Rightarrow> string
     \<Rightarrow> chrome_store \<Rightarrow> js_error + chrome_store" where
  "handleStorageChange_chrome h key persist_arg changes areaName st =
     (let persist = default_param False persist_arg;
          st1 = console_print Console_log ''Changes in storage: '' st
      in if (persist \<and> areaName = ''local'') \<or> (\<not> persist \<and> areaName = ''session'')
         then (case changes_member changes key of
                 None \<Rightarrow> Inr st1
               | Some change \<Rightarrow>
                   try_catch
                     (bind_js (JSON_parse h (newValue change))
                        (\<lambda>v. Inr (st1\<lparr>value_c := v\<rparr>)))
                     (\<lambda>error.
                        if error = SyntaxError
                        then Inr (st1\<lparr>value_c := newValue change\<rparr>)
                        else Inr (console_print Console_debug
                                    ''[Warning] Error parsing updated value from storage:'' st1)))
         else Inr st1)"

text \<open>The listener run on a sequence of changes, in order; an exception ends the run.\<close>

fun deliver_changes ::
  "json_host \<Rightarrow> string \<Rightarrow> bool option \<Rightarrow> ((string \<rightharpoonup> StorageChange) \<times> string) list
     \<Rightarrow> chrome_store \<Rightarrow> js_error + chrome_store" where
  "deliver_changes h key persist_arg [] st = Inr st"
| "deliver_changes h key persist_arg ((changes, areaName) # rest) st =
     bind_js (handleStorageChange_chrome h key persist_arg changes areaName st)
       (deliver_changes h key persist_arg rest)"

text \<open>
  The setter of the extension binding, a closure like the browser binding's. It hands
  \<open>storage.set\<close> the object \<open>{ [key]: JSON.stringify(valueToStore) }\<close>, whose member
  is \<open>undefined\<close> when the value has no JSON text.
\<close>

definition setStoredValue_chrome ::
  "json_host \<Rightarrow> string \<Rightarrow> bool option \<Rightarrow> jsval \<Rightarrow> SetStateAction \<Rightarrow> chrome_store
     \<Rightarrow> chrome_store \<times> js_error option" where
  "setStoredValue_chrome h key persist_arg captured valueAction st =
     (let valueToStore = (case valueAction of Updater f \<Rightarrow> f captured | Literal v \<Rightarrow> v);
          st1 = st\<lparr>value_c := valueToStore\<rparr>
      in case JSON_stringify h valueToStore of
           Inl e \<Rightarrow> (st1, Some e)
         | Inr json \<Rightarrow>
             (st1\<lparr>chrome := storage_set (chrome st1) (chrome_area persist_arg)
                       [(key, case json of Some item \<Rightarrow> JStr item | None \<Rightarrow> JUndefined)]\<rparr>,
              None))"


section \<open>A concrete JSON host\<close>

text \<open>
  A concrete host for the instances below; the general theorems hold for every host.
  Its \<open>parse\<close> follows ECMAScript on the texts it covers: \<open>null\<close>, \<open>true\<close>,
  \<open>false\<close>, integer numerals and string literals with no escape and no control
  character, with white space around them. A text with a fraction, an exponent, an
  escape, an array or an object is outside this fragment (it is answered like a
  malformed text), and no instance below uses one.
\<close>

definition digit_char :: "nat \<Rightarrow> char" where
  "digit_char d = ''0123456789'' ! d"

fun digits_of :: "nat \<Rightarrow> string" where
  "digits_of n =
     (if n < 10 then [digit_char n] else digits_of (n div 10) @ [digit_char (n mod 10)])"

definition show_int :: "int \<Rightarrow> string" where
  "show_int i = (if i < 0 then CHR ''-'' # digits_of (nat (- i)) else digits_of (nat i))"

definition digit_value :: "char \<Rightarrow> nat option" where
  "digit_value c =
     map_of [(CHR ''0'', 0), (CHR ''1'', 1), (CHR ''2'', 2), (CHR ''3'', 3), (CHR ''4'', 4),
             (CHR ''5'', 5), (CHR ''6'', 6), (CHR ''7'', 7), (CHR ''8'', 8), (CHR ''9'', 9)] c"

fun read_digits :: "nat \<Rightarrow> string \<Rightarrow> nat option" where
  "read_digits a [] = Some a"
| "read_digits a (c # cs) =
     (case digit_value c of None \<Rightarrow> None | Some d \<Rightarrow> read_digits (10 * a + d) cs)"

text \<open>The integer part of a JSON number: \<open>0\<close>, or digits with no leading zero.\<close>

definition read_natural :: "string \<Rightarrow> nat option" where
  "read_natural ds =
     (case ds of
        [] \<Rightarrow> None
      | c # cs \<Rightarrow> if c = CHR ''0'' \<and> cs \<noteq> [] then None else read_digits 0 ds)"

definition read_number :: "string \<Rightarrow> int option" where
  "read_number s =
     (case s of
        [] \<Rightarrow> None
      | c # cs \<Rightarrow>
          if c = CHR ''-'' then map_option (\<lambda>n. - int n) (read_natural cs)
          else map_option int (read_natural s))"

definition plain_char :: "char \<Rightarrow> bool" where
  "plain_char c = (c \<noteq> CHR 0x22 \<and> c \<noteq> CHR 0x5C \<and> (32::nat) \<le> of_char c)"

definition read_string :: "string \<Rightarrow> string option" where
  "read_string s =
     (case s of
        [] \<Rightarrow> None
      | c # cs \<Rightarrow>
          if c = CHR 0x22 \<and> cs \<noteq> [] \<and> last cs = CHR 0x22 \<and> list_all plain_char (butlast cs)
          then Some (butlast cs) else None)"

definition json_space :: "char \<Rightarrow> bool" where
  "json_space c = (c = CHR 0x20 \<or> c = CHR 0x09 \<or> c = CHR 0x0A \<or> c = CHR 0x0D)"

definition trim :: "string \<Rightarrow> string" where
  "trim s = rev (dropWhile json_space (rev (dropWhile json_space s)))"

definition parse_text :: "string \<Rightarrow> js_error + jsval" where
  "parse_text s =
     (let t = trim s in
      if t = ''null'' then Inr JNull
      else if t = ''true'' then Inr (JBool True)
      else if t = ''false'' then Inr (JBool False)
      else case read_number t of
             Some n \<Rightarrow> Inr (JNum n)
           | None \<Rightarrow> (case read_string t of
                         Some body \<Rightarrow> Inr (JStr body)
                       | None \<Rightarrow> Inl SyntaxError))"

text \<open>
  \<open>JSON.parse\<close> first converts its argument to a string: a symbol throws
  \<open>TypeError\<close>, an array joins its elements with commas, an object prints as
  \<open>[object Object]\<close>.
\<close>

fun ToString :: "jsval \<Rightarrow> js_error + string"
  and join_elements :: "jsval list \<Rightarrow> js_error + string" where
  "ToString JUndefined = Inr ''undefined''"
| "ToString JNull = Inr ''null''"
| "ToString (JBool b) = Inr (if b then ''true'' else ''false'')"
| "ToString (JNum n) = Inr (show_int n)"
| "ToString (JStr s) = Inr s"
| "ToString (JSymbol d) = Inl TypeError"
| "ToString (JArr xs) = join_elements xs"
| "ToString (JObj kvs) = Inr ''[object Object]''"
| "ToString (JBoxed p) = ToString p"
| "join_elements [] = Inr []"
| "join_elements (x # xs) =
     (case (if x = JUndefined \<or> x = JNull then Inr [] else ToString x) of
        Inl e \<Rightarrow> Inl e
      | Inr a \<Rightarrow>
          if xs = [] then Inr a
          else (case join_elements xs of Inl e \<Rightarrow> Inl e | Inr b \<Rightarrow> Inr (a @ '','' @ b)))"

definition ecma_parse :: "jsval \<Rightarrow> js_error + jsval" where
  "ecma_parse v = bind_js (ToString v) parse_text"

definition quote :: "string \<Rightarrow> string" where
  "quote s =
     CHR 0x22 #
     concat (map (\<lambda>c. if c = CHR 0x22 \<or> c = CHR 0x5C then [CHR 0x5C, c] else [c]) s)
     @ [CHR 0x22]"

fun join_with :: "string \<Rightarrow> string list \<Rightarrow> string" where
  "join_with sep [] = []"
| "join_with sep [x] = x"
| "join_with sep (x # y # ys) = x @ sep @ join_with sep (y # ys)"

text \<open>
  The JSON text of a value that has one. In an array \<open>undefined\<close> and a symbol print
  as \<open>null\<close>; in an object their member is left out. The wrapper of a number, a string
  or a boolean prints as what it wraps, the wrapper of a symbol as an empty object.
\<close>

fun json_text :: "jsval \<Rightarrow> string"
  and stringify_elements :: "jsval list \<Rightarrow> string list"
  and stringify_members :: "(string \<times> jsval) list \<Rightarrow> string list" where
  "json_text JUndefined = ''null''"
| "json_text JNull = ''null''"
| "json_text (JBool b) = (if b then ''true'' else ''false'')"
| "json_text (JNum n) = show_int n"
| "json_text (JStr s) = quote s"
| "json_text (JSymbol d) = ''null''"
| "json_text (JArr xs) = ''['' @ join_with '','' (stringify_elements xs) @ '']''"
| "json_text (JObj kvs) = ''{'' @ join_with '','' (stringify_members kvs) @ ''}''"
| "json_text (JBoxed p) = (case p of JSymbol d \<Rightarrow> ''{}'' | _ \<Rightarrow> json_text p)"
| "stringify_elements [] = []"
| "stringify_elements (x # xs) = json_text x # stringify_elements xs"
| "stringify_members [] = []"
| "stringify_members ((k, v) # kvs) =
     (case v of
        JUndefined \<Rightarrow> stringify_members kvs
      | JSymbol d \<Rightarrow> stringify_members kvs
      | _ \<Rightarrow> (quote k @ '':'' @ json_text v) # stringify_members kvs)"

text \<open>
  \<open>JSON.stringify\<close>: \<open>undefined\<close> and a symbol have no JSON text, and the built-in
  returns \<open>undefined\<close> for them. It throws on no value of this model.
\<close>

definition ecma_stringify :: "jsval \<Rightarrow> js_error + string option" where
  "ecma_stringify v =
     (case v of
        JUndefined \<Rightarrow> Inr None
      | JSymbol d \<Rightarrow> Inr None
      | _ \<Rightarrow> Inr (Some (json_text v)))"

definition ecma_host :: json_host where
  "ecma_host = \<lparr>JSON_parse = ecma_parse, JSON_stringify = ecma_stringify\<rparr>"

text \<open>
  The updater \<open>(prev) => prev + 1\<close> on a number. On another operand the host converts
  first; the scenario below never passes one.
\<close>

definition plus_one :: "jsval \<Rightarrow> jsval" where
  "plus_one prev = (case prev of JNum n \<Rightarrow> JNum (n + 1) | _ \<Rightarrow> JUndefined)"

declare digits_of.simps [simp del]

section \<open>The browser binding: setter and initial value\<close>

lemma show_int_small:
  "show_int 1 = ''1''" "show_int 2 = ''2''" "show_int 3 = ''3''" "show_int 5 = ''5''"
  by (simp_all add: show_int_def digits_of.simps digit_char_def)

lemma parse_empty_text: "ecma_parse (JStr '''') = Inl SyntaxError"
  by code_simp

lemma parse_five: "ecma_parse (JStr ''5'') = Inr (JNum 5)"
  by code_simp

lemma parse_yes: "ecma_parse (JStr ''yes'') = Inl SyntaxError"
  by code_simp

lemma parse_symbol: "ecma_parse (JSymbol ''s'') = Inl TypeError"
  by code_simp

lemma parse_undefined: "ecma_parse JUndefined = Inl SyntaxError"
  by code_simp

text \<open>
  C1, evaluated on the setter a component holds. With key \<open>count\<close>, default 0,
  \<open>persist = true\<close> and empty storage, the binding mounts with the value 0 and its
  render returns the setter \<open>set_count\<close>. Three calls of that setter, one after the
  other, with the updater \<open>(prev) => prev + 1\<close> leave the value 1 in memory and the
  text \<open>1\<close> under \<open>count\<close> in localStorage, not 3: each call applies the updater to
  the value the render captured, not to the state the call before it left.
\<close>

theorem count_scenario_one_render:
  "\<exists>st0 set_count.
     useSimpleStore_mount ecma_host ''count'' (JNum 0) (Some True)
         \<lparr>localStorage = Map.empty, sessionStorage = Map.empty\<rparr> = Inr st0
     \<and> useSimpleStore ecma_host ''count'' (Some True) st0 = (JNum 0, set_count)
     \<and> (let st3 = fst (set_count (Updater plus_one)
                     (fst (set_count (Updater plus_one)
                        (fst (set_count (Updater plus_one) st0)))))
        in value_st st3 = JNum 1 \<and> getItem (web st3) LocalStorage ''count'' = Some ''1'')"
  by (simp add: useSimpleStore_mount_def useSimpleStore_initial_def simple_storage_def
      default_param_def getItem_def bind_js_def useSimpleStore_def
      setStoredValue_def setItem_def plus_one_def ecma_host_def ecma_stringify_def
      show_int_small Let_def)

text \<open>
  When the component renders between the calls, so that each call goes to the setter of
  the latest render, the three calls do count to 3.
\<close>

lemma count_scenario_rendered_between:
  assumes "localStorage w ''count'' = None"
  shows "\<exists>st0. useSimpleStore_mount ecma_host ''count'' (JNum 0) (Some True) w = Inr st0
           \<and> fst (useSimpleStore ecma_host ''count'' (Some True) st0) = JNum 0
           \<and> (let st3 = call_setter ecma_host ''count'' (Some True) (Updater plus_one)
                          (call_setter ecma_host ''count'' (Some True) (Updater plus_one)
                            (call_setter ecma_host ''count'' (Some True) (Updater plus_one) st0))
              in fst (useSimpleStore ecma_host ''count'' (Some True) st3) = JNum 3
                 \<and> getItem (web st3) LocalStorage ''count'' = Some ''3'')"
  using assms
  by (simp add: useSimpleStore_mount_def useSimpleStore_initial_def simple_storage_def
      default_param_def getItem_def bind_js_def useSimpleStore_def call_setter_def
      setStoredValue_def setItem_def plus_one_def ecma_host_def ecma_stringify_def
      show_int_small Let_def)




text \<open>
  C3, as stated, fails: an entry that exists under the key with the empty text is not
  parsed (\<open>JSON.parse\<close> of the empty text throws \<open>SyntaxError\<close>); the initializer
  tests truthiness and returns the default.
\<close>

theorem initial_value_empty_entry_counterexample:
  "getItem \<lparr>localStorage = [''k'' \<mapsto> ''''], sessionStorage = Map.empty\<rparr> LocalStorage ''k'' = Some ''''
   \<and> JSON_parse ecma_host (JStr '''') = Inl SyntaxError
   \<and> useSimpleStore_initial ecma_host \<lparr>localStorage = [''k'' \<mapsto> ''''], sessionStorage = Map.empty\<rparr>
        ''k'' (JNum 7) (Some True) = Inr (JNum 7)
   \<and> useSimpleStore_initial ecma_host \<lparr>localStorage = [''k'' \<mapsto> ''''], sessionStorage = Map.empty\<rparr>
        ''k'' (JNum 7) (Some True) \<noteq> JSON_parse ecma_host (JStr '''')"
  by (simp add: useSimpleStore_initial_def simple_storage_def default_param_def getItem_def
      ecma_host_def parse_empty_text)

text \<open>
  C3, amended. For every key \<open>K\<close> and default \<open>D\<close>: if the selected area holds a
  non-empty text under \<open>K\<close>, the initial value is the parse of that text (a parse error
  is the outcome when the text is malformed); if it holds no entry under \<open>K\<close>, or the
  empty text, the initial value is \<open>D\<close>.
\<close>

theorem initial_value:
  "(getItem w (if p then LocalStorage else SessionStorage) K = Some entry \<and> entry \<noteq> []
      \<longrightarrow> useSimpleStore_initial h w K D (Some p) = JSON_parse h (JStr entry))
   \<and> (getItem w (if p then LocalStorage else SessionStorage) K = None
        \<or> getItem w (if p then LocalStorage else SessionStorage) K = Some []
      \<longrightarrow> useSimpleStore_initial h w K D (Some p) = Inr D)"
  by (auto simp add: useSimpleStore_initial_def simple_storage_def default_param_def)

theorem initial_value_witness:
  "getItem \<lparr>localStorage = [''k'' \<mapsto> ''5''], sessionStorage = Map.empty\<rparr> LocalStorage ''k'' = Some ''5''
   \<and> ''5'' \<noteq> []
   \<and> useSimpleStore_initial ecma_host \<lparr>localStorage = [''k'' \<mapsto> ''5''], sessionStorage = Map.empty\<rparr>
        ''k'' (JNum 7) (Some True) = Inr (JNum 5)
   \<and> getItem \<lparr>localStorage = [''k'' \<mapsto> ''5''], sessionStorage = Map.empty\<rparr> SessionStorage ''k'' = None
   \<and> useSimpleStore_initial ecma_host \<lparr>localStorage = [''k'' \<mapsto> ''5''], sessionStorage = Map.empty\<rparr>
        ''k'' (JNum 7) (Some False) = Inr (JNum 7)"
proof -
  let ?w = "\<lparr>localStorage = [''k'' \<mapsto> ''5''], sessionStorage = Map.empty\<rparr>"
  have a: "getItem ?w (if True then LocalStorage else SessionStorage) ''k'' = Some ''5'' \<and> ''5'' \<noteq> []"
    by (simp add: getItem_def)
  have b: "getItem ?w (if False then LocalStorage else SessionStorage) ''k'' = None
           \<or> getItem ?w (if False then LocalStorage else SessionStorage) ''k'' = Some []"
    by (simp add: getItem_def)
  from initial_value [where w = ?w and p = True and K = "''k''" and entry = "''5''"
      and h = ecma_host and D = "JNum 7"] a
  have "useSimpleStore_initial ecma_host ?w ''k'' (JNum 7) (Some True) = JSON_parse ecma_host (JStr ''5'')"
    by blast
  moreover from initial_value [where w = ?w and p = False and K = "''k''" and entry = "''5''"
      and h = ecma_host and D = "JNum 7"] b
  have "useSimpleStore_initial ecma_host ?w ''k'' (JNum 7) (Some False) = Inr (JNum 7)"
    by blast
  ultimately show ?thesis
    using a b by (simp add: ecma_host_def parse_five getItem_def)
qed

section \<open>The browser binding: the storage listener\<close>

text \<open>
  C4, as stated, fails: the listener does not look at the event. When sessionStorage
  holds \<open>5\<close> under \<open>obj\<close> while the value in memory is 7 (another component of the
  page wrote the entry, which fires no event in the same document), an event for the key
  \<open>other\<close> makes the binding on \<open>obj\<close> adopt 5.
\<close>

theorem other_key_event_counterexample:
  "event_key \<lparr>event_key = Some ''other'', event_newValue = Some ''1'', event_storageArea = LocalStorage\<rparr>
     = Some ''other''
   \<and> value_st \<lparr>value_st = JNum 7,
         web = \<lparr>localStorage = [''other'' \<mapsto> ''1''], sessionStorage = [''obj'' \<mapsto> ''5'']\<rparr>\<rparr> = JNum 7
   \<and> dispatch_storage_event ecma_host ''obj'' (Some False)
        \<lparr>event_key = Some ''other'', event_newValue = Some ''1'', event_storageArea = LocalStorage\<rparr>
        \<lparr>value_st = JNum 7,
         web = \<lparr>localStorage = [''other'' \<mapsto> ''1''], sessionStorage = [''obj'' \<mapsto> ''5'']\<rparr>\<rparr>
     = Inr \<lparr>value_st = JNum 5,
         web = \<lparr>localStorage = [''other'' \<mapsto> ''1''], sessionStorage = [''obj'' \<mapsto> ''5'']\<rparr>\<rparr>"
  by (simp add: dispatch_storage_event_def handleStorageChange_def simple_storage_def
      default_param_def getItem_def bind_js_def ecma_host_def parse_five)

text \<open>
  C4, amended. For a binding on \<open>obj\<close> with \<open>persist = false\<close>, any storage event
  (so also one for the key \<open>other\<close>) makes the listener read \<open>obj\<close> again from
  sessionStorage: the value in memory stays as it is when there is no entry under
  \<open>obj\<close> or the entry parses to the value in memory; otherwise the binding adopts the
  parse of the entry, and a parse error leaves the listener.
\<close>

theorem other_key_event:
  "(getItem (web st) SessionStorage ''obj'' = None
      \<longrightarrow> dispatch_storage_event h ''obj'' (Some False) ev st = Inr st)
   \<and> (getItem (web st) SessionStorage ''obj'' = Some entry
        \<and> JSON_parse h (JStr entry) = Inr (value_st st)
      \<longrightarrow> dispatch_storage_event h ''obj'' (Some False) ev st = Inr st)
   \<and> (getItem (web st) SessionStorage ''obj'' = Some entry \<and> JSON_parse h (JStr entry) = Inr v
      \<longrightarrow> dispatch_storage_event h ''obj'' (Some False) ev st = Inr (st\<lparr>value_st := v\<rparr>))
   \<and> (getItem (web st) SessionStorage ''obj'' = Some entry \<and> JSON_parse h (JStr entry) = Inl e
      \<longrightarrow> dispatch_storage_event h ''obj'' (Some False) ev st = Inl e)"
  by (simp add: dispatch_storage_event_def handleStorageChange_def simple_storage_def
      default_param_def bind_js_def)

theorem other_key_event_witness:
  "getItem \<lparr>localStorage = [''other'' \<mapsto> ''1''], sessionStorage = Map.empty\<rparr> SessionStorage ''obj'' = None
   \<and> dispatch_storage_event ecma_host ''obj'' (Some False)
        \<lparr>event_key = Some ''other'', event_newValue = Some ''1'', event_storageArea = LocalStorage\<rparr>
        \<lparr>value_st = JNum 7, web = \<lparr>localStorage = [''other'' \<mapsto> ''1''], sessionStorage = Map.empty\<rparr>\<rparr>
     = Inr \<lparr>value_st = JNum 7, web = \<lparr>localStorage = [''other'' \<mapsto> ''1''], sessionStorage = Map.empty\<rparr>\<rparr>
   \<and> getItem \<lparr>localStorage = Map.empty, sessionStorage = [''obj'' \<mapsto> ''5'']\<rparr> SessionStorage ''obj'' = Some ''5''
   \<and> JSON_parse ecma_host (JStr ''5'') = Inr (JNum 5)
   \<and> dispatch_storage_event ecma_host ''obj'' (Some False)
        \<lparr>event_key = Some ''other'', event_newValue = Some ''1'', event_storageArea = LocalStorage\<rparr>
        \<lparr>value_st = JNum 5, web = \<lparr>localStorage = Map.empty, sessionStorage = [''obj'' \<mapsto> ''5'']\<rparr>\<rparr>
     = Inr \<lparr>value_st = JNum 5, web = \<lparr>localStorage = Map.empty, sessionStorage = [''obj'' \<mapsto> ''5'']\<rparr>\<rparr>
   \<and> getItem \<lparr>localStorage = Map.empty, sessionStorage = [''obj'' \<mapsto> ''yes'']\<rparr> SessionStorage ''obj'' = Some ''yes''
   \<and> JSON_parse ecma_host (JStr ''yes'') = Inl SyntaxError
   \<and> dispatch_storage_event ecma_host ''obj'' (Some False)
        \<lparr>event_key = Some ''other'', event_newValue = Some ''1'', event_storageArea = LocalStorage\<rparr>
        \<lparr>value_st = JNum 5, web = \<lparr>localStorage = Map.empty, sessionStorage = [''obj'' \<mapsto> ''yes'']\<rparr>\<rparr>
     = Inl SyntaxError"
proof -
  let ?ev = "\<lparr>event_key = Some ''other'', event_newValue = Some ''1'', event_storageArea = LocalStorage\<rparr>"
  let ?st1 = "\<lparr>value_st = JNum 7, web = \<lparr>localStorage = [''other'' \<mapsto> ''1''], sessionStorage = Map.empty\<rparr>\<rparr>"
  let ?st2 = "\<lparr>value_st = JNum 5, web = \<lparr>localStorage = Map.empty, sessionStorage = [''obj'' \<mapsto> ''5'']\<rparr>\<rparr>"
  let ?st3 = "\<lparr>value_st = JNum 5, web = \<lparr>localStorage = Map.empty, sessionStorage = [''obj'' \<mapsto> ''yes'']\<rparr>\<rparr>"
  have a1: "getItem (web ?st1) SessionStorage ''obj'' = None"
    by (simp add: getItem_def)
  have a2: "getItem (web ?st2) SessionStorage ''obj'' = Some ''5''
            \<and> JSON_parse ecma_host (JStr ''5'') = Inr (value_st ?st2)"
    by (simp add: getItem_def ecma_host_def parse_five)
  have a3: "getItem (web ?st3) SessionStorage ''obj'' = Some ''yes''
            \<and> JSON_parse ecma_host (JStr ''yes'') = Inl SyntaxError"
    by (simp add: getItem_def ecma_host_def parse_yes)
  from other_key_event [where st = ?st1 and h = ecma_host and ev = ?ev] a1
  have b1: "dispatch_storage_event ecma_host ''obj'' (Some False) ?ev ?st1 = Inr ?st1"
    by blast
  from other_key_event [where st = ?st2 and h = ecma_host and ev = ?ev and entry = "''5''"
      and v = "JNum 5"] a2
  have b2: "dispatch_storage_event ecma_host ''obj'' (Some False) ?ev ?st2 = Inr ?st2"
    by simp
  from other_key_event [where st = ?st3 and h = ecma_host and ev = ?ev and entry = "''yes''"
      and e = SyntaxError] a3
  have b3: "dispatch_storage_event ecma_host ''obj'' (Some False) ?ev ?st3 = Inl SyntaxError"
    by blast
  from a1 a2 a3 b1 b2 b3 show ?thesis
    by simp
qed

text \<open>
  C9, as stated, fails on the initial read: the empty text is a malformed entry
  (\<open>JSON.parse\<close> throws \<open>SyntaxError\<close> on it), and the initializer, which tests
  truthiness, does not parse it: the component mounts with the default.
\<close>

theorem malformed_empty_entry_counterexample:
  "getItem \<lparr>localStorage = Map.empty, sessionStorage = [''obj'' \<mapsto> '''']\<rparr> SessionStorage ''obj'' = Some ''''
   \<and> JSON_parse ecma_host (JStr '''') = Inl SyntaxError
   \<and> useSimpleStore_mount ecma_host ''obj'' JNull (Some False)
        \<lparr>localStorage = Map.empty, sessionStorage = [''obj'' \<mapsto> '''']\<rparr>
      = Inr \<lparr>value_st = JNull, web = \<lparr>localStorage = Map.empty, sessionStorage = [''obj'' \<mapsto> '''']\<rparr>\<rparr>"
  by (simp add: useSimpleStore_mount_def useSimpleStore_initial_def simple_storage_def
      default_param_def getItem_def bind_js_def ecma_host_def parse_empty_text)

text \<open>
  C9, amended. For every malformed entry under the binding's key other than the empty
  text, the parse error of the initial read is not caught: it is the outcome of the
  initializer and of the mount. For every malformed entry, the empty text included, the
  parse error of the listener's read is not caught either.
\<close>

theorem malformed_entry_propagates:
  "(getItem w (if p then LocalStorage else SessionStorage) K = Some entry
      \<and> JSON_parse h (JStr entry) = Inl e \<and> entry \<noteq> []
      \<longrightarrow> useSimpleStore_initial h w K D (Some p) = Inl e
          \<and> useSimpleStore_mount h K D (Some p) w = Inl e)
   \<and> (getItem (web st) (if p then LocalStorage else SessionStorage) K = Some entry
      \<and> JSON_parse h (JStr entry) = Inl e
      \<longrightarrow> handleStorageChange h K (Some p) st = Inl e)"
  by (simp add: useSimpleStore_mount_def useSimpleStore_initial_def handleStorageChange_def
      simple_storage_def default_param_def bind_js_def)

theorem malformed_entry_propagates_witness:
  "getItem \<lparr>localStorage = [''k'' \<mapsto> ''yes''], sessionStorage = Map.empty\<rparr> LocalStorage ''k'' = Some ''yes''
   \<and> JSON_parse ecma_host (JStr ''yes'') = Inl SyntaxError
   \<and> ''yes'' \<noteq> []
   \<and> useSimpleStore_mount ecma_host ''k'' JNull (Some True)
        \<lparr>localStorage = [''k'' \<mapsto> ''yes''], sessionStorage = Map.empty\<rparr> = Inl SyntaxError
   \<and> handleStorageChange ecma_host ''k'' (Some True)
        \<lparr>value_st = JNull, web = \<lparr>localStorage = [''k'' \<mapsto> ''yes''], sessionStorage = Map.empty\<rparr>\<rparr>
      = Inl SyntaxError"
proof -
  let ?w = "\<lparr>localStorage = [''k'' \<mapsto> ''yes''], sessionStorage = Map.empty\<rparr>"
  let ?st = "\<lparr>value_st = JNull, web = ?w\<rparr>"
  have a: "getItem ?w (if True then LocalStorage else SessionStorage) ''k'' = Some ''yes''
           \<and> JSON_parse ecma_host (JStr ''yes'') = Inl SyntaxError \<and> ''yes'' \<noteq> []"
    by (simp add: getItem_def ecma_host_def parse_yes)
  have b: "getItem (web ?st) (if True then LocalStorage else SessionStorage) ''k'' = Some ''yes''
           \<and> JSON_parse ecma_host (JStr ''yes'') = Inl SyntaxError"
    by (simp add: getItem_def ecma_host_def parse_yes)
  from malformed_entry_propagates [where w = ?w and p = True and K = "''k''" and entry = "''yes''"
      and h = ecma_host and e = SyntaxError and D = JNull and st = ?st] a b
  have "useSimpleStore_mount ecma_host ''k'' JNull (Some True) ?w = Inl SyntaxError
        \<and> handleStorageChange ecma_host ''k'' (Some True) ?st = Inl SyntaxError"
    by blast
  with a show ?thesis
    by simp
qed

section \<open>The extension binding: the change listener\<close>

text \<open>
  For a key that is not the name of a member of \<open>Object.prototype\<close>, the listener
  filters as intended: a change that reports another area or does not hold the key
  leaves the state as it was, over any sequence of such changes.
\<close>

lemma unrelated_change_ignored:
  assumes "key \<notin> set Object_prototype_names"
    and "areaName \<noteq> (if p then ''local'' else ''session'') \<or> changes key = None"
  shows "\<exists>st'. handleStorageChange_chrome h key (Some p) changes areaName st = Inr st'
               \<and> value_c st' = value_c st \<and> hasLoaded st' = hasLoaded st \<and> chrome st' = chrome st"
  using assms
  by (auto simp add: handleStorageChange_chrome_def changes_member_def default_param_def
      console_print_def Let_def)

lemma unrelated_changes_ignored:
  assumes "key \<notin> set Object_prototype_names"
    and "\<forall>(changes, areaName) \<in> set evs.
             areaName \<noteq> (if p then ''local'' else ''session'') \<or> changes key = None"
  shows "\<exists>st'. deliver_changes h key (Some p) evs st = Inr st' \<and> value_c st' = value_c st"
  using assms(2)
proof (induction evs arbitrary: st)
  case Nil
  then show ?case by simp
next
  case (Cons ev evs)
  obtain changes areaName where ev: "ev = (changes, areaName)"
    by (cases ev)
  from Cons.prems ev
  have "areaName \<noteq> (if p then ''local'' else ''session'') \<or> changes key = None"
    by simp
  with assms(1)
  have "\<exists>st'. handleStorageChange_chrome h key (Some p) changes areaName st = Inr st'
               \<and> value_c st' = value_c st \<and> hasLoaded st' = hasLoaded st \<and> chrome st' = chrome st"
    by (rule unrelated_change_ignored)
  then obtain st1 where st1: "handleStorageChange_chrome h key (Some p) changes areaName st = Inr st1"
    and v1: "value_c st1 = value_c st"
    by blast
  from Cons.prems have "\<forall>(changes, areaName) \<in> set evs.
      areaName \<noteq> (if p then ''local'' else ''session'') \<or> changes key = None"
    by simp
  from Cons.IH [OF this, of st1]
  obtain st' where "deliver_changes h key (Some p) evs st1 = Inr st'" and "value_c st' = value_c st1"
    by blast
  with st1 v1 ev show ?case
    by (simp add: bind_js_def)
qed

text \<open>
  C5, evaluated where the filter fails. A binding on the key \<open>constructor\<close> with
  \<open>persist = false\<close> holds the value 0. A change on the session area whose change set
  is empty, so does not include the key, makes the listener set the bound value to
  \<open>undefined\<close>: \<open>changes[key]\<close> finds the inherited member, which is truthy and has no
  \<open>newValue\<close>, and \<open>JSON.parse(undefined)\<close> throws \<open>SyntaxError\<close>.
\<close>

theorem inherited_key_change_evaluated:
  "handleStorageChange_chrome ecma_host ''constructor'' (Some False) Map.empty ''session''
     \<lparr>value_c = JNum 0, hasLoaded = True, console_out = [],
      chrome = \<lparr>local_area = Map.empty, session_area = Map.empty\<rparr>\<rparr>
   = Inr \<lparr>value_c = JUndefined, hasLoaded = True,
          console_out = [(Console_log, ''Changes in storage: '')],
          chrome = \<lparr>local_area = Map.empty, session_area = Map.empty\<rparr>\<rparr>"
  by (simp add: handleStorageChange_chrome_def changes_member_def Object_prototype_names_def
      default_param_def console_print_def bind_js_def try_catch_def ecma_host_def
      parse_undefined Let_def)

text \<open>
  C6. On a change that reports the area of the binding's mode and includes the binding's
  key, the listener parses the \<open>newValue\<close> the change carries: when the parse succeeds
  the bound value is the parsed value; when it throws \<open>SyntaxError\<close> the bound value is
  the \<open>newValue\<close> as it came; when it throws anything else the bound value stays and the
  failure is printed on the console. The listener returns normally in all three cases.
\<close>

theorem matching_change:
  "(persist \<and> areaName = ''local'') \<or> (\<not> persist \<and> areaName = ''session'') \<Longrightarrow>
   changes key = Some change \<Longrightarrow>
   (JSON_parse h (newValue change) = Inr v
      \<longrightarrow> (\<exists>st'. handleStorageChange_chrome h key (Some persist) changes areaName st = Inr st'
                 \<and> value_c st' = v))
   \<and> (JSON_parse h (newValue change) = Inl SyntaxError
      \<longrightarrow> (\<exists>st'. handleStorageChange_chrome h key (Some persist) changes areaName st = Inr st'
                 \<and> value_c st' = newValue change))
   \<and> (JSON_parse h (newValue change) = Inl e \<and> e \<noteq> SyntaxError
      \<longrightarrow> (\<exists>st'. handleStorageChange_chrome h key (Some persist) changes areaName st = Inr st'
                 \<and> value_c st' = value_c st
                 \<and> console_out st' = console_out st @
                      [(Console_log, ''Changes in storage: ''),
                       (Console_debug, ''[Warning] Error parsing updated value from storage:'')]))"
  by (auto simp add: handleStorageChange_chrome_def changes_member_def default_param_def
      console_print_def Let_def bind_js_def try_catch_def)

theorem matching_change_witness:
  "JSON_parse ecma_host (JStr ''5'') = Inr (JNum 5)
   \<and> (\<exists>st'. handleStorageChange_chrome ecma_host ''k'' (Some True)
               [''k'' \<mapsto> \<lparr>oldValue = JUndefined, newValue = JStr ''5''\<rparr>] ''local''
               \<lparr>value_c = JNum 0, hasLoaded = True, console_out = [],
                chrome = \<lparr>local_area = Map.empty, session_area = Map.empty\<rparr>\<rparr> = Inr st'
           \<and> value_c st' = JNum 5)
   \<and> JSON_parse ecma_host (JStr ''yes'') = Inl SyntaxError
   \<and> (\<exists>st'. handleStorageChange_chrome ecma_host ''k'' (Some False)
               [''k'' \<mapsto> \<lparr>oldValue = JUndefined, newValue = JStr ''yes''\<rparr>] ''session''
               \<lparr>value_c = JNum 0, hasLoaded = True, console_out = [],
                chrome = \<lparr>local_area = Map.empty, session_area = Map.empty\<rparr>\<rparr> = Inr st'
           \<and> value_c st' = JStr ''yes'')
   \<and> JSON_parse ecma_host (JSymbol ''s'') = Inl TypeError
   \<and> TypeError \<noteq> SyntaxError
   \<and> (\<exists>st'. handleStorageChange_chrome ecma_host ''k'' (Some True)
               [''k'' \<mapsto> \<lparr>oldValue = JUndefined, newValue = JSymbol ''s''\<rparr>] ''local''
               \<lparr>value_c = JNum 0, hasLoaded = True, console_out = [],
                chrome = \<lparr>local_area = Map.empty, session_area = Map.empty\<rparr>\<rparr> = Inr st'
           \<and> value_c st' = JNum 0)"
proof -
  let ?st = "\<lparr>value_c = JNum 0, hasLoaded = True, console_out = [],
              chrome = \<lparr>local_area = Map.empty, session_area = Map.empty\<rparr>\<rparr>"
  let ?c1 = "\<lparr>oldValue = JUndefined, newValue = JStr ''5''\<rparr>"
  let ?c2 = "\<lparr>oldValue = JUndefined, newValue = JStr ''yes''\<rparr>"
  let ?c3 = "\<lparr>oldValue = JUndefined, newValue = JSymbol ''s''\<rparr>"
  have p1: "JSON_parse ecma_host (newValue ?c1) = Inr (JNum 5)"
    by (simp add: ecma_host_def parse_five)
  have p2: "JSON_parse ecma_host (newValue ?c2) = Inl SyntaxError"
    by (simp add: ecma_host_def parse_yes)
  have p3: "JSON_parse ecma_host (newValue ?c3) = Inl TypeError \<and> TypeError \<noteq> SyntaxError"
    by (simp add: ecma_host_def parse_symbol)
  have m1: "(True \<and> ''local'' = ''local'') \<or> (\<not> True \<and> ''local'' = ''session'')"
    by simp
  have m2: "(False \<and> ''session'' = ''local'') \<or> (\<not> False \<and> ''session'' = ''session'')"
    by simp
  have k1: "[''k'' \<mapsto> ?c1] ''k'' = Some ?c1" by simp
  have k2: "[''k'' \<mapsto> ?c2] ''k'' = Some ?c2" by simp
  have k3: "[''k'' \<mapsto> ?c3] ''k'' = Some ?c3" by simp
  from matching_change [where persist = True and areaName = "''local''" and key = "''k''"
      and changes = "[''k'' \<mapsto> ?c1]" and change = ?c1 and h = ecma_host and v = "JNum 5"
      and st = ?st, OF m1 k1] p1
  have r1: "\<exists>st'. handleStorageChange_chrome ecma_host ''k'' (Some True) [''k'' \<mapsto> ?c1] ''local'' ?st
                    = Inr st' \<and> value_c st' = JNum 5"
    by blast
  from matching_change [where persist = False and areaName = "''session''" and key = "''k''"
      and changes = "[''k'' \<mapsto> ?c2]" and change = ?c2 and h = ecma_host
      and st = ?st, OF m2 k2] p2
  have r2: "\<exists>st'. handleStorageChange_chrome ecma_host ''k'' (Some False) [''k'' \<mapsto> ?c2] ''session'' ?st
                    = Inr st' \<and> value_c st' = JStr ''yes''"
    by simp
  from matching_change [where persist = True and areaName = "''local''" and key = "''k''"
      and changes = "[''k'' \<mapsto> ?c3]" and change = ?c3 and h = ecma_host and e = TypeError
      and st = ?st, OF m1 k3] p3
  have r3: "\<exists>st'. handleStorageChange_chrome ecma_host ''k'' (Some True) [''k'' \<mapsto> ?c3] ''local'' ?st
                    = Inr st' \<and> value_c st' = JNum 0"
    by auto
  from p1 p2 p3 r1 r2 r3 show ?thesis
    by simp
qed

section \<open>The extension binding: the first read\<close>

text \<open>
  What the callback of the first read does with an entry of the area, and with a miss on
  a key that is not the name of a member of \<open>Object.prototype\<close>: it returns normally
  with \<open>hasLoaded\<close> true; the bound value is the parsed value when the parse succeeds,
  the stored value as it is when the parse throws, and what it was on the miss, which
  after the mount is the default value. An area cannot hold \<open>undefined\<close>.
\<close>

lemma initial_read_outcomes:
  "(area_items (chrome st) (if p then ChromeLocal else ChromeSession) key = Some raw
        \<and> raw \<noteq> JUndefined \<and> JSON_parse h raw = Inr v
      \<longrightarrow> (\<exists>st'. initial_read h key (Some p) st = Inr st' \<and> value_c st' = v \<and> hasLoaded st'))
   \<and> (area_items (chrome st) (if p then ChromeLocal else ChromeSession) key = Some raw
        \<and> raw \<noteq> JUndefined \<and> JSON_parse h raw = Inl e
      \<longrightarrow> (\<exists>st'. initial_read h key (Some p) st = Inr st' \<and> value_c st' = raw \<and> hasLoaded st'))
   \<and> (area_items (chrome st) (if p then ChromeLocal else ChromeSession) key = None
        \<and> key \<notin> set Object_prototype_names
      \<longrightarrow> (\<exists>st'. initial_read h key (Some p) st = Inr st' \<and> value_c st' = value_c st
                 \<and> hasLoaded st'))
   \<and> value_c (useChromeStore_mount D c) = D \<and> \<not> hasLoaded (useChromeStore_mount D c)"
  by (auto simp add: initial_read_def chrome_area_def default_param_def storage_get_def
      lookup_def Object_prototype_def Object_prototype_names_def parse_found_def
      setValue_def next_state_def console_print_def bind_js_def try_catch_def
      useChromeStore_mount_def Let_def
      split: sum.splits option.splits)

text \<open>
  C7, evaluated where the test for a missing key fails. A binding on the key
  \<open>toString\<close> with default 0 and \<open>persist = false\<close> mounts on empty storage. The
  key is absent, yet the first read does not leave the value at the default:
  \<open>result[key]\<close> finds the inherited function, its parse throws, the failure is
  printed, and \<open>setValue\<close> is handed the function, which React calls: the bound value
  becomes the text \<open>[object Undefined]\<close>. \<open>hasLoaded\<close> is true.
\<close>

theorem inherited_key_first_read_evaluated:
  "initial_read ecma_host ''toString'' (Some False)
     (useChromeStore_mount (JNum 0) \<lparr>local_area = Map.empty, session_area = Map.empty\<rparr>)
   = Inr \<lparr>value_c = JStr ''[object Undefined]'', hasLoaded = True,
          console_out = [(Console_debug, ''[Warning] Error parsing value from storage:'')],
          chrome = \<lparr>local_area = Map.empty, session_area = Map.empty\<rparr>\<rparr>"
  by (simp add: initial_read_def useChromeStore_mount_def chrome_area_def default_param_def
      storage_get_def area_items_def lookup_def Object_prototype_def Object_prototype_names_def
      parse_found_def setValue_def next_state_def call_builtin_def console_print_def
      bind_js_def try_catch_def Let_def)

section \<open>getFromChromeStore\<close>

lemma not_inherited_undefined:
  "key \<notin> set Object_prototype_names \<Longrightarrow> Object_prototype key = Data JUndefined"
  by (auto simp add: Object_prototype_def Object_prototype_names_def)

lemma inherited_found:
  "key \<in> set Object_prototype_names \<Longrightarrow>
     Object_prototype key = Prototype \<or> Object_prototype key = Builtin key"
  by (auto simp add: Object_prototype_def)

text \<open>
  C8. \<open>getFromChromeStore\<close> resolves for every key, default value, mode and storage
  contents, and never rejects: to the parsed value when the area holds a value under the
  key and its parse succeeds; to the default value, after printing the failure, when the
  parse throws; to the default value when the area holds nothing under the key. In the
  last case a key that names a member of \<open>Object.prototype\<close> reaches the default
  through the failed parse of the inherited member, which is printed too.
\<close>

theorem fetch_always_resolves:
  "(\<exists>v. fst (getFromChromeStore h c key D persist_arg) = Resolved v)
   \<and> (area_items c (if p then ChromeLocal else ChromeSession) key = Some raw
        \<and> raw \<noteq> JUndefined \<and> JSON_parse h raw = Inr v
      \<longrightarrow> getFromChromeStore h c key D (Some p) = (Resolved v, []))
   \<and> (area_items c (if p then ChromeLocal else ChromeSession) key = Some raw
        \<and> raw \<noteq> JUndefined \<and> JSON_parse h raw = Inl e
      \<longrightarrow> getFromChromeStore h c key D (Some p)
          = (Resolved D, [(Console_error, ''[Warning] Error parsing value from storage:'')]))
   \<and> (area_items c (if p then ChromeLocal else ChromeSession) key = None
      \<longrightarrow> getFromChromeStore h c key D (Some p)
          = (Resolved D,
             if key \<in> set Object_prototype_names
             then [(Console_error, ''[Warning] Error parsing value from storage:'')]
             else []))"
proof -
  have always: "\<exists>v. fst (getFromChromeStore h c key D persist_arg) = Resolved v"
    by (auto simp add: getFromChromeStore_def bind_js_def try_catch_def Let_def
        split: sum.splits)
  have hit: "area_items c (if p then ChromeLocal else ChromeSession) key = Some raw
        \<and> raw \<noteq> JUndefined \<and> JSON_parse h raw = Inr v
      \<longrightarrow> getFromChromeStore h c key D (Some p) = (Resolved v, [])"
    by (auto simp add: getFromChromeStore_def chrome_area_def default_param_def storage_get_def
        lookup_def parse_found_def bind_js_def try_catch_def Let_def)
  have bad: "area_items c (if p then ChromeLocal else ChromeSession) key = Some raw
        \<and> raw \<noteq> JUndefined \<and> JSON_parse h raw = Inl e
      \<longrightarrow> getFromChromeStore h c key D (Some p)
          = (Resolved D, [(Console_error, ''[Warning] Error parsing value from storage:'')])"
    by (auto simp add: getFromChromeStore_def chrome_area_def default_param_def storage_get_def
        lookup_def parse_found_def bind_js_def try_catch_def Let_def)
  have miss: "area_items c (if p then ChromeLocal else ChromeSession) key = None
      \<longrightarrow> getFromChromeStore h c key D (Some p)
          = (Resolved D,
             if key \<in> set Object_prototype_names
             then [(Console_error, ''[Warning] Error parsing value from storage:'')]
             else [])"
  proof
    assume "area_items c (if p then ChromeLocal else ChromeSession) key = None"
    then have look: "lookup (storage_get c (chrome_area (Some p)) [key]) key = Object_prototype key"
      by (simp add: lookup_def storage_get_def chrome_area_def default_param_def)
    show "getFromChromeStore h c key D (Some p)
          = (Resolved D,
             if key \<in> set Object_prototype_names
             then [(Console_error, ''[Warning] Error parsing value from storage:'')]
             else [])"
    proof (cases "key \<in> set Object_prototype_names")
      case True
      from inherited_found [OF True] look True show ?thesis
        by (auto simp add: getFromChromeStore_def parse_found_def bind_js_def try_catch_def Let_def)
    next
      case False
      with look not_inherited_undefined [OF False] show ?thesis
        by (simp add: getFromChromeStore_def Let_def)
    qed
  qed
  from always hit bad miss show ?thesis
    by blast
qed

theorem fetch_always_resolves_witness:
  "area_items \<lparr>local_area = [''n'' \<mapsto> JStr ''5''], session_area = [''flag'' \<mapsto> JStr ''yes'']\<rparr>
       ChromeLocal ''n'' = Some (JStr ''5'')
   \<and> JSON_parse ecma_host (JStr ''5'') = Inr (JNum 5)
   \<and> getFromChromeStore ecma_host
        \<lparr>local_area = [''n'' \<mapsto> JStr ''5''], session_area = [''flag'' \<mapsto> JStr ''yes'']\<rparr>
        ''n'' JNull (Some True) = (Resolved (JNum 5), [])
   \<and> area_items \<lparr>local_area = [''n'' \<mapsto> JStr ''5''], session_area = [''flag'' \<mapsto> JStr ''yes'']\<rparr>
       ChromeSession ''flag'' = Some (JStr ''yes'')
   \<and> JSON_parse ecma_host (JStr ''yes'') = Inl SyntaxError
   \<and> getFromChromeStore ecma_host
        \<lparr>local_area = [''n'' \<mapsto> JStr ''5''], session_area = [''flag'' \<mapsto> JStr ''yes'']\<rparr>
        ''flag'' JNull (Some False)
      = (Resolved JNull, [(Console_error, ''[Warning] Error parsing value from storage:'')])
   \<and> area_items \<lparr>local_area = [''n'' \<mapsto> JStr ''5''], session_area = [''flag'' \<mapsto> JStr ''yes'']\<rparr>
       ChromeSession ''n'' = None
   \<and> getFromChromeStore ecma_host
        \<lparr>local_area = [''n'' \<mapsto> JStr ''5''], session_area = [''flag'' \<mapsto> JStr ''yes'']\<rparr>
        ''n'' JNull (Some False) = (Resolved JNull, [])
   \<and> area_items \<lparr>local_area = [''n'' \<mapsto> JStr ''5''], session_area = [''flag'' \<mapsto> JStr ''yes'']\<rparr>
       ChromeSession ''toString'' = None
   \<and> getFromChromeStore ecma_host
        \<lparr>local_area = [''n'' \<mapsto> JStr ''5''], session_area = [''flag'' \<mapsto> JStr ''yes'']\<rparr>
        ''toString'' JNull (Some False)
      = (Resolved JNull, [(Console_error, ''[Warning] Error parsing value from storage:'')])"
proof -
  let ?c = "\<lparr>local_area = [''n'' \<mapsto> JStr ''5''], session_area = [''flag'' \<mapsto> JStr ''yes'']\<rparr>"
  have a1: "area_items ?c (if True then ChromeLocal else ChromeSession) ''n'' = Some (JStr ''5'')
            \<and> JStr ''5'' \<noteq> JUndefined \<and> JSON_parse ecma_host (JStr ''5'') = Inr (JNum 5)"
    by (simp add: area_items_def ecma_host_def parse_five)
  have a2: "area_items ?c (if False then ChromeLocal else ChromeSession) ''flag'' = Some (JStr ''yes'')
            \<and> JStr ''yes'' \<noteq> JUndefined \<and> JSON_parse ecma_host (JStr ''yes'') = Inl SyntaxError"
    by (simp add: area_items_def ecma_host_def parse_yes)
  have a3: "area_items ?c (if False then ChromeLocal else ChromeSession) ''n'' = None"
    by (simp add: area_items_def)
  have a4: "area_items ?c (if False then ChromeLocal else ChromeSession) ''toString'' = None"
    by (simp add: area_items_def)
  have n3: "''n'' \<notin> set Object_prototype_names" and n4: "''toString'' \<in> set Object_prototype_names"
    by (simp_all add: Object_prototype_names_def)
  from fetch_always_resolves [where c = ?c and p = True and key = "''n''" and raw = "JStr ''5''"
      and h = ecma_host and v = "JNum 5" and D = JNull] a1
  have r1: "getFromChromeStore ecma_host ?c ''n'' JNull (Some True) = (Resolved (JNum 5), [])"
    by blast
  from fetch_always_resolves [where c = ?c and p = False and key = "''flag''" and raw = "JStr ''yes''"
      and h = ecma_host and e = SyntaxError and D = JNull] a2
  have r2: "getFromChromeStore ecma_host ?c ''flag'' JNull (Some False)
            = (Resolved JNull, [(Console_error, ''[Warning] Error parsing value from storage:'')])"
    by blast
  from fetch_always_resolves [where c = ?c and p = False and key = "''n''" and h = ecma_host
      and D = JNull] a3 n3
  have r3: "getFromChromeStore ecma_host ?c ''n'' JNull (Some False) = (Resolved JNull, [])"
    by simp
  from fetch_always_resolves [where c = ?c and p = False and key = "''toString''" and h = ecma_host
      and D = JNull] a4 n4
  have r4: "getFromChromeStore ecma_host ?c ''toString'' JNull (Some False)
            = (Resolved JNull, [(Console_error, ''[Warning] Error parsing value from storage:'')])"
    by simp
  from a1 a2 a3 a4 r1 r2 r3 r4 show ?thesis
    by simp
qed

section \<open>The default of persist\<close>

text \<open>
  C10. With the \<open>persist\<close> argument left out, \<open>useSimpleStore\<close> behaves as with
  \<open>persist = true\<close> and works on localStorage, while \<open>useChromeStore\<close> and
  \<open>getFromChromeStore\<close> behave as with \<open>persist = false\<close> and work on the session
  area, for every key and default value. In the browser binding the initial value and
  the listener read the entry of localStorage (sessionStorage does not matter to the
  initial value), and the setter writes localStorage and leaves sessionStorage alone. In
  the extension binding and the helper, the fetch and the first read take the entry of
  the session area (the local area does not matter to the fetch), the listener reacts to
  a change of the area \<open>session\<close> and not to one of the area \<open>local\<close>, and the setter
  writes the session area and leaves the local area alone.
\<close>

theorem default_persistence:
  "simple_storage None = LocalStorage \<and> chrome_area None = ChromeSession
   \<and> useSimpleStore_mount h key D None w = useSimpleStore_mount h key D (Some True) w
   \<and> handleStorageChange h key None st = handleStorageChange h key (Some True) st
   \<and> setStoredValue h key None captured act st = setStoredValue h key (Some True) captured act st
   \<and> getFromChromeStore h c key D None = getFromChromeStore h c key D (Some False)
   \<and> initial_read h key None cst = initial_read h key (Some False) cst
   \<and> handleStorageChange_chrome h key None changes areaName cst
       = handleStorageChange_chrome h key (Some False) changes areaName cst
   \<and> setStoredValue_chrome h key None captured act cst
       = setStoredValue_chrome h key (Some False) captured act cst
   \<and> (localStorage w key = Some entry \<and> entry \<noteq> []
        \<longrightarrow> useSimpleStore_initial h w key D None = JSON_parse h (JStr entry))
   \<and> (localStorage w key = None \<longrightarrow> useSimpleStore_initial h w key D None = Inr D)
   \<and> useSimpleStore_initial h (w\<lparr>sessionStorage := m\<rparr>) key D None
       = useSimpleStore_initial h w key D None
   \<and> (localStorage (web st) key = Some entry \<and> JSON_parse h (JStr entry) = Inr v
        \<longrightarrow> handleStorageChange h key None st = Inr (st\<lparr>value_st := v\<rparr>))
   \<and> (JSON_stringify h V = Inr (Some s)
        \<longrightarrow> localStorage (web (fst (setStoredValue h key None captured (Literal V) st))) key = Some s
          \<and> sessionStorage (web (fst (setStoredValue h key None captured (Literal V) st)))
              = sessionStorage (web st))
   \<and> (session_area c key = Some raw \<and> raw \<noteq> JUndefined \<and> JSON_parse h raw = Inr v
        \<longrightarrow> getFromChromeStore h c key D None = (Resolved v, []))
   \<and> getFromChromeStore h (c\<lparr>local_area := m'\<rparr>) key D None = getFromChromeStore h c key D None
   \<and> (session_area (chrome cst) key = Some raw \<and> raw \<noteq> JUndefined \<and> JSON_parse h raw = Inr v
        \<longrightarrow> (\<exists>st'. initial_read h key None cst = Inr st' \<and> value_c st' = v))
   \<and> (changes key = Some change \<and> JSON_parse h (newValue change) = Inr v
        \<longrightarrow> (\<exists>st'. handleStorageChange_chrome h key None changes ''session'' cst = Inr st'
                   \<and> value_c st' = v)
          \<and> (\<exists>st'. handleStorageChange_chrome h key None changes ''local'' cst = Inr st'
                   \<and> value_c st' = value_c cst))
   \<and> (JSON_stringify h V = Inr (Some s)
        \<longrightarrow> session_area (chrome (fst (setStoredValue_chrome h key None captured (Literal V) cst))) key
              = Some (JStr s)
          \<and> local_area (chrome (fst (setStoredValue_chrome h key None captured (Literal V) cst)))
              = local_area (chrome cst))"
proof -
  have sel: "simple_storage None = LocalStorage" "chrome_area None = ChromeSession"
    "simple_storage (Some True) = LocalStorage" "chrome_area (Some False) = ChromeSession"
    by (simp_all add: simple_storage_def chrome_area_def default_param_def)
  have eqs: "useSimpleStore_mount h key D None w = useSimpleStore_mount h key D (Some True) w"
    "handleStorageChange h key None st = handleStorageChange h key (Some True) st"
    "setStoredValue h key None captured act st = setStoredValue h key (Some True) captured act st"
    "getFromChromeStore h c key D None = getFromChromeStore h c key D (Some False)"
    "initial_read h key None cst = initial_read h key (Some False) cst"
    "handleStorageChange_chrome h key None changes areaName cst
       = handleStorageChange_chrome h key (Some False) changes areaName cst"
    "setStoredValue_chrome h key None captured act cst
       = setStoredValue_chrome h key (Some False) captured act cst"
    by (simp_all add: sel useSimpleStore_mount_def useSimpleStore_initial_def
        handleStorageChange_def setStoredValue_def getFromChromeStore_def initial_read_def
        handleStorageChange_chrome_def setStoredValue_chrome_def default_param_def Let_def
        split: sum.splits)
  have b1: "localStorage w key = Some entry \<and> entry \<noteq> []
        \<longrightarrow> useSimpleStore_initial h w key D None = JSON_parse h (JStr entry)"
    and b2: "localStorage w key = None \<longrightarrow> useSimpleStore_initial h w key D None = Inr D"
    and b3: "useSimpleStore_initial h (w\<lparr>sessionStorage := m\<rparr>) key D None
       = useSimpleStore_initial h w key D None"
    by (simp_all add: useSimpleStore_initial_def sel getItem_def)
  have b4: "localStorage (web st) key = Some entry \<and> JSON_parse h (JStr entry) = Inr v
        \<longrightarrow> handleStorageChange h key None st = Inr (st\<lparr>value_st := v\<rparr>)"
    by (simp add: handleStorageChange_def sel getItem_def bind_js_def)
  have b5: "JSON_stringify h V = Inr (Some s)
        \<longrightarrow> localStorage (web (fst (setStoredValue h key None captured (Literal V) st))) key = Some s
          \<and> sessionStorage (web (fst (setStoredValue h key None captured (Literal V) st)))
              = sessionStorage (web st)"
    by (simp add: setStoredValue_def sel setItem_def Let_def)
  have c1: "session_area c key = Some raw \<and> raw \<noteq> JUndefined \<and> JSON_parse h raw = Inr v
        \<longrightarrow> getFromChromeStore h c key D None = (Resolved v, [])"
    by (simp add: getFromChromeStore_def sel storage_get_def area_items_def lookup_def
        parse_found_def bind_js_def try_catch_def Let_def)
  have c2: "getFromChromeStore h (c\<lparr>local_area := m'\<rparr>) key D None = getFromChromeStore h c key D None"
    by (simp add: getFromChromeStore_def sel storage_get_def area_items_def Let_def)
  have c3: "session_area (chrome cst) key = Some raw \<and> raw \<noteq> JUndefined \<and> JSON_parse h raw = Inr v
        \<longrightarrow> (\<exists>st'. initial_read h key None cst = Inr st' \<and> value_c st' = v)"
    by (simp add: initial_read_def sel storage_get_def area_items_def lookup_def
        parse_found_def setValue_def next_state_def bind_js_def try_catch_def Let_def)
  have c4: "changes key = Some change \<and> JSON_parse h (newValue change) = Inr v
        \<longrightarrow> (\<exists>st'. handleStorageChange_chrome h key None changes ''session'' cst = Inr st'
                   \<and> value_c st' = v)
          \<and> (\<exists>st'. handleStorageChange_chrome h key None changes ''local'' cst = Inr st'
                   \<and> value_c st' = value_c cst)"
    by (simp add: handleStorageChange_chrome_def changes_member_def default_param_def
        console_print_def bind_js_def try_catch_def Let_def)
  have c5: "JSON_stringify h V = Inr (Some s)
        \<longrightarrow> session_area (chrome (fst (setStoredValue_chrome h key None captured (Literal V) cst))) key
              = Some (JStr s)
          \<and> local_area (chrome (fst (setStoredValue_chrome h key None captured (Literal V) cst)))
              = local_area (chrome cst)"
    by (simp add: setStoredValue_chrome_def sel storage_set_def storable_def Let_def)
  show ?thesis
    by (intro conjI) (rule sel eqs b1 b2 b3 b4 b5 c1 c2 c3 c4 c5)+
qed

theorem default_persistence_witness:
  "localStorage \<lparr>localStorage = [''k'' \<mapsto> ''5''], sessionStorage = Map.empty\<rparr> ''k'' = Some ''5''
   \<and> ''5'' \<noteq> []
   \<and> JSON_parse ecma_host (JStr ''5'') = Inr (JNum 5)
   \<and> useSimpleStore_initial ecma_host \<lparr>localStorage = [''k'' \<mapsto> ''5''], sessionStorage = Map.empty\<rparr>
        ''k'' JNull None = Inr (JNum 5)
   \<and> localStorage \<lparr>localStorage = Map.empty, sessionStorage = [''k'' \<mapsto> ''5'']\<rparr> ''k'' = None
   \<and> useSimpleStore_initial ecma_host \<lparr>localStorage = Map.empty, sessionStorage = [''k'' \<mapsto> ''5'']\<rparr>
        ''k'' JNull None = Inr JNull
   \<and> handleStorageChange ecma_host ''k'' None
        \<lparr>value_st = JNull, web = \<lparr>localStorage = [''k'' \<mapsto> ''5''], sessionStorage = Map.empty\<rparr>\<rparr>
      = Inr \<lparr>value_st = JNum 5, web = \<lparr>localStorage = [''k'' \<mapsto> ''5''], sessionStorage = Map.empty\<rparr>\<rparr>
   \<and> JSON_stringify ecma_host (JNum 3) = Inr (Some ''3'')
   \<and> localStorage (web (fst (setStoredValue ecma_host ''k'' None JNull (Literal (JNum 3))
        \<lparr>value_st = JNull, web = \<lparr>localStorage = Map.empty, sessionStorage = Map.empty\<rparr>\<rparr>))) ''k''
      = Some ''3''
   \<and> sessionStorage (web (fst (setStoredValue ecma_host ''k'' None JNull (Literal (JNum 3))
        \<lparr>value_st = JNull, web = \<lparr>localStorage = Map.empty, sessionStorage = Map.empty\<rparr>\<rparr>)))
      = Map.empty
   \<and> session_area \<lparr>local_area = Map.empty, session_area = [''k'' \<mapsto> JStr ''5'']\<rparr> ''k''
      = Some (JStr ''5'')
   \<and> getFromChromeStore ecma_host \<lparr>local_area = Map.empty, session_area = [''k'' \<mapsto> JStr ''5'']\<rparr>
        ''k'' JNull None = (Resolved (JNum 5), [])
   \<and> (\<exists>st'. initial_read ecma_host ''k'' None
               (useChromeStore_mount JNull
                  \<lparr>local_area = Map.empty, session_area = [''k'' \<mapsto> JStr ''5'']\<rparr>) = Inr st'
           \<and> value_c st' = JNum 5)
   \<and> (\<exists>st'. handleStorageChange_chrome ecma_host ''k'' None
               [''k'' \<mapsto> \<lparr>oldValue = JUndefined, newValue = JStr ''5''\<rparr>] ''session''
               (useChromeStore_mount JNull \<lparr>local_area = Map.empty, session_area = Map.empty\<rparr>)
             = Inr st' \<and> value_c st' = JNum 5)
   \<and> (\<exists>st'. handleStorageChange_chrome ecma_host ''k'' None
               [''k'' \<mapsto> \<lparr>oldValue = JUndefined, newValue = JStr ''5''\<rparr>] ''local''
               (useChromeStore_mount JNull \<lparr>local_area = Map.empty, session_area = Map.empty\<rparr>)
             = Inr st' \<and> value_c st' = JNull)
   \<and> session_area (chrome (fst (setStoredValue_chrome ecma_host ''k'' None JNull (Literal (JNum 3))
        (useChromeStore_mount JNull \<lparr>local_area = Map.empty, session_area = Map.empty\<rparr>)))) ''k''
      = Some (JStr ''3'')
   \<and> local_area (chrome (fst (setStoredValue_chrome ecma_host ''k'' None JNull (Literal (JNum 3))
        (useChromeStore_mount JNull \<lparr>local_area = Map.empty, session_area = Map.empty\<rparr>))))
      = Map.empty"
proof -
  let ?w1 = "\<lparr>localStorage = [''k'' \<mapsto> ''5''], sessionStorage = Map.empty\<rparr>"
  let ?w2 = "\<lparr>localStorage = Map.empty, sessionStorage = [''k'' \<mapsto> ''5'']\<rparr>"
  let ?w0 = "\<lparr>localStorage = Map.empty, sessionStorage = Map.empty\<rparr>"
  let ?st1 = "\<lparr>value_st = JNull, web = ?w1\<rparr>"
  let ?st0 = "\<lparr>value_st = JNull, web = ?w0\<rparr>"
  let ?c1 = "\<lparr>local_area = Map.empty, session_area = [''k'' \<mapsto> JStr ''5'']\<rparr>"
  let ?c0 = "\<lparr>local_area = Map.empty, session_area = Map.empty\<rparr>"
  let ?cst1 = "useChromeStore_mount JNull ?c1"
  let ?cst0 = "useChromeStore_mount JNull ?c0"
  let ?ch = "\<lparr>oldValue = JUndefined, newValue = JStr ''5''\<rparr>"
  have p5: "JSON_parse ecma_host (JStr ''5'') = Inr (JNum 5)"
    by (simp add: ecma_host_def parse_five)
  have s3: "JSON_stringify ecma_host (JNum 3) = Inr (Some ''3'')"
    by (simp add: ecma_host_def ecma_stringify_def show_int_small)
  have m: "chrome ?cst1 = ?c1" "chrome ?cst0 = ?c0" "value_c ?cst0 = JNull"
    by (simp_all add: useChromeStore_mount_def)
  have a1: "localStorage ?w1 ''k'' = Some ''5'' \<and> ''5'' \<noteq> []" by simp
  have a2: "localStorage ?w2 ''k'' = None" by simp
  have a4: "localStorage (web ?st1) ''k'' = Some ''5'' \<and> JSON_parse ecma_host (JStr ''5'') = Inr (JNum 5)"
    by (simp add: p5)
  have a6: "session_area ?c1 ''k'' = Some (JStr ''5'') \<and> JStr ''5'' \<noteq> JUndefined
            \<and> JSON_parse ecma_host (JStr ''5'') = Inr (JNum 5)"
    by (simp add: p5)
  have a7: "session_area (chrome ?cst1) ''k'' = Some (JStr ''5'') \<and> JStr ''5'' \<noteq> JUndefined
            \<and> JSON_parse ecma_host (JStr ''5'') = Inr (JNum 5)"
    by (simp add: p5 m)
  have a8: "[''k'' \<mapsto> ?ch] ''k'' = Some ?ch \<and> JSON_parse ecma_host (newValue ?ch) = Inr (JNum 5)"
    by (simp add: p5)
  note T = default_persistence [where h = ecma_host and key = "''k''" and D = JNull]
  from T [where w = ?w1 and entry = "''5''"] a1
  have r1: "useSimpleStore_initial ecma_host ?w1 ''k'' JNull None = JSON_parse ecma_host (JStr ''5'')"
    by blast
  from T [where w = ?w2] a2
  have r2: "useSimpleStore_initial ecma_host ?w2 ''k'' JNull None = Inr JNull"
    by blast
  from T [where st = ?st1 and entry = "''5''" and v = "JNum 5"] a4
  have r4: "handleStorageChange ecma_host ''k'' None ?st1 = Inr (?st1\<lparr>value_st := JNum 5\<rparr>)"
    by blast
  from T [where st = ?st0 and V = "JNum 3" and s = "''3''" and captured = JNull] s3
  have r5: "localStorage (web (fst (setStoredValue ecma_host ''k'' None JNull (Literal (JNum 3)) ?st0))) ''k''
              = Some ''3''
            \<and> sessionStorage (web (fst (setStoredValue ecma_host ''k'' None JNull (Literal (JNum 3)) ?st0)))
              = sessionStorage (web ?st0)"
    by blast
  from T [where c = ?c1 and raw = "JStr ''5''" and v = "JNum 5"] a6
  have r6: "getFromChromeStore ecma_host ?c1 ''k'' JNull None = (Resolved (JNum 5), [])"
    by blast
  from T [where cst = ?cst1 and raw = "JStr ''5''" and v = "JNum 5"] a7
  have r7: "\<exists>st'. initial_read ecma_host ''k'' None ?cst1 = Inr st' \<and> value_c st' = JNum 5"
    by blast
  from T [where cst = ?cst0 and changes = "[''k'' \<mapsto> ?ch]" and change = ?ch and v = "JNum 5"] a8
  have r8: "(\<exists>st'. handleStorageChange_chrome ecma_host ''k'' None [''k'' \<mapsto> ?ch] ''session'' ?cst0 = Inr st'
                   \<and> value_c st' = JNum 5)
            \<and> (\<exists>st'. handleStorageChange_chrome ecma_host ''k'' None [''k'' \<mapsto> ?ch] ''local'' ?cst0 = Inr st'
                   \<and> value_c st' = value_c ?cst0)"
    by blast
  from T [where cst = ?cst0 and V = "JNum 3" and s = "''3''" and captured = JNull] s3
  have r9: "session_area (chrome (fst (setStoredValue_chrome ecma_host ''k'' None JNull (Literal (JNum 3)) ?cst0))) ''k''
              = Some (JStr ''3'')
            \<and> local_area (chrome (fst (setStoredValue_chrome ecma_host ''k'' None JNull (Literal (JNum 3)) ?cst0)))
              = local_area (chrome ?cst0)"
    by blast
  from a1 a2 p5 s3 a6 r1 r2 r4 r5 r6 r7 r8 r9 show ?thesis
    by (simp add: m)
qed

end
